theory Spec2Isabelle
  imports Main
begin

section \<open>The weather pipeline of \<^verbatim>\<open>Airflow_pipeline.ipynb\<close>\<close>

text \<open>
  The notebook defines three Python callables (\<^verbatim>\<open>task1\<close>, \<^verbatim>\<open>task2\<close>, \<^verbatim>\<open>task3\<close>), wraps
  them in three \<^verbatim>\<open>PythonOperator\<close>s, adds one \<^verbatim>\<open>BashOperator\<close> whose command is a
  template, and chains the four operators. The scheduling framework that runs them is
  imported, not defined, by the notebook; what is embedded here is the notebook's own code:
  the signatures of the callables, the files they write, the keyword arguments each operator
  is constructed with, and the command template.
\<close>

subsection \<open>Calling a Python function with keyword arguments\<close>

text \<open>
  A call \<^verbatim>\<open>f(**kw)\<close> raises \<^verbatim>\<open>TypeError\<close> when a parameter without default gets no value,
  or when a keyword names no parameter and \<^verbatim>\<open>f\<close> declares no \<^verbatim>\<open>**kwargs\<close>. Otherwise the
  parameters are bound in their declared order and the remaining keywords are collected.
\<close>

datatype error = TypeError

type_synonym kwargs = "(string \<times> string) list"

record signature =
  params :: "string list"
  var_keyword :: bool

definition bind_kwargs :: "signature \<Rightarrow> kwargs \<Rightarrow> error + (string list \<times> kwargs)" where
  "bind_kwargs sg kw =
     (let missing = filter (\<lambda>p. map_of kw p = None) (params sg);
          extra = filter (\<lambda>(k, v). k \<notin> set (params sg)) kw
      in if missing \<noteq> [] then Inl TypeError
         else if extra \<noteq> [] \<and> \<not> var_keyword sg then Inl TypeError
         else Inr (map (\<lambda>p. the (map_of kw p)) (params sg), extra))"

subsection \<open>Formatting the wall-clock time\<close>

text \<open>
  \<^verbatim>\<open>task1\<close> reads \<^verbatim>\<open>t = datetime.now()\<close> and formats it as
  \<^verbatim>\<open>f"weathers_{t.date()}T{t.hour:02}-{t.minute:02}-{t.second:02}.csv"\<close>:
  the date in ISO form, the other fields in decimal, padded with zeros to two digits.
\<close>

record datetime =
  year :: nat
  month :: nat
  day :: nat
  hour :: nat
  minute :: nat
  second :: nat

function decimal :: "nat \<Rightarrow> string" where
  "decimal n = (if n < 10 then [''0123456789'' ! n]
                else decimal (n div 10) @ [''0123456789'' ! (n mod 10)])"
  by pat_completeness auto
termination
  by (relation "measure id") auto

definition zero_pad :: "nat \<Rightarrow> nat \<Rightarrow> string" where
  "zero_pad w n = replicate (w - length (decimal n)) (CHR ''0'') @ decimal n"

definition iso_date :: "datetime \<Rightarrow> string" where
  "iso_date t = zero_pad 4 (year t) @ ''-'' @ zero_pad 2 (month t) @ ''-'' @ zero_pad 2 (day t)"

subsection \<open>The three callables\<close>

text \<open>
  Each callable is modelled by the name of the file it writes when it completes; the
  HTTP requests, the data frames and the chart are outside the model.
  \<^item> \<^verbatim>\<open>def task1():\<close> writes \<^verbatim>\<open>weathers_<now>.csv\<close>, named after the wall clock;
  \<^item> \<^verbatim>\<open>def task2():\<close> writes \<^verbatim>\<open>all_weathers.csv\<close>;
  \<^item> \<^verbatim>\<open>def task3(ds, ts, **kwargs):\<close> ends with \<^verbatim>\<open>line.save(f'test_{ts}.png', ...)\<close>.
\<close>

definition task1 :: "datetime \<Rightarrow> string" where
  "task1 t = ''weathers_'' @ iso_date t @ ''T'' @ zero_pad 2 (hour t) @ ''-''
             @ zero_pad 2 (minute t) @ ''-'' @ zero_pad 2 (second t) @ ''.csv''"

definition task2 :: string where
  "task2 = ''all_weathers.csv''"

definition task3 :: "string \<Rightarrow> string \<Rightarrow> kwargs \<Rightarrow> string" where
  "task3 ds ts kw = ''test_'' @ ts @ ''.png''"

datatype callable = Task1 | Task2 | Task3

fun signature_of :: "callable \<Rightarrow> signature" where
  "signature_of Task1 = \<lparr>params = [], var_keyword = False\<rparr>"
| "signature_of Task2 = \<lparr>params = [], var_keyword = False\<rparr>"
| "signature_of Task3 = \<lparr>params = [''ds'', ''ts''], var_keyword = True\<rparr>"

fun body :: "callable \<Rightarrow> datetime \<Rightarrow> string list \<Rightarrow> kwargs \<Rightarrow> string" where
  "body Task1 now args rest = task1 now"
| "body Task2 now args rest = task2"
| "body Task3 now args rest = task3 (args ! 0) (args ! 1) rest"

text \<open>
  \<open>call f now kw\<close> is \<^verbatim>\<open>f(**kw)\<close> at wall-clock time \<open>now\<close>. The list of bound arguments
  has one entry per declared parameter, so the two indices of \<open>Task3\<close> are in range.
\<close>

definition call :: "callable \<Rightarrow> datetime \<Rightarrow> kwargs \<Rightarrow> error + string" where
  "call f now kw =
     (case bind_kwargs (signature_of f) kw of
        Inl e \<Rightarrow> Inl e
      | Inr (args, rest) \<Rightarrow> Inr (body f now args rest))"

subsection \<open>The command template of the last task\<close>

text \<open>
  \<^verbatim>\<open>op_end_command\<close> is the template
  \<^verbatim>\<open>{% for i in range(5) %} echo "{{ macros.ds_add(ds, i) }}" {% endfor %}\<close>
  (with its line breaks). A name that occurs in a template and is not bound by an enclosing
  \<^verbatim>\<open>for\<close> is looked up, when the template is rendered, in what the renderer is given.
\<close>

datatype expr = Var string | Num nat | Attr expr string | Call expr "expr list"

datatype node = Text string | Output expr | For string expr "node list"

fun expr_names :: "expr \<Rightarrow> string list" where
  "expr_names (Var x) = [x]"
| "expr_names (Num n) = []"
| "expr_names (Attr e a) = expr_names e"
| "expr_names (Call f args) = expr_names f @ concat (map expr_names args)"

fun node_names :: "node \<Rightarrow> string list" where
  "node_names (Text s) = []"
| "node_names (Output e) = expr_names e"
| "node_names (For x it nodes) =
     expr_names it @ filter (\<lambda>v. v \<noteq> x) (concat (map node_names nodes))"

definition template_names :: "node list \<Rightarrow> string list" where
  "template_names t = concat (map node_names t)"

definition op_end_command :: "node list" where
  "op_end_command =
     [Text [CHR 0x0A],
      For ''i'' (Call (Var ''range'') [Num 5])
        [Text (CHR 0x0A # ''    echo '' @ [CHR 0x22]),
         Output (Call (Attr (Var ''macros'') ''ds_add'') [Var ''ds'', Var ''i'']),
         Text [CHR 0x22, CHR 0x0A]],
      Text [CHR 0x0A]]"

subsection \<open>The operators\<close>

text \<open>
  An operator is built from the keyword arguments the notebook writes. \<open>provide_context\<close>
  is \<open>None\<close> where the keyword is not given (in \<^verbatim>\<open>op2\<close> it is commented out) and
  \<open>Some True\<close> in \<^verbatim>\<open>op3\<close>. All four operators belong to the one DAG \<^verbatim>\<open>my_dag\<close>.
\<close>

datatype operator =
    PythonOperator (task_id: string) (python_callable: callable) (provide_context: "bool option")
  | BashOperator (task_id: string) (bash_command: "node list")

definition op1 :: operator where
  "op1 = PythonOperator ''task1'' Task1 None"

definition op2 :: operator where
  "op2 = PythonOperator ''task2'' Task2 None"

definition op3 :: operator where
  "op3 = PythonOperator ''task3'' Task3 (Some True)"

definition op_end :: operator where
  "op_end = BashOperator ''last_task'' op_end_command"

definition operators :: "operator list" where
  "operators = [op1, op2, op3, op_end]"

subsection \<open>Who is handed the run context\<close>

text \<open>
  The notebook says of the flag: \<^emph>\<open>\<^verbatim>\<open>provide_context = True\<close> in \<^verbatim>\<open>op3\<close> passes the scheduler
  timestamp to \<^verbatim>\<open>task3()\<close>\<close>. With the flag on, the operator calls its callable with the run
  context as keyword arguments; with the flag off, with none. What an operator does when
  the keyword is absent is the framework's default, which the notebook does not contain:
  it is the parameter \<open>dflt\<close>.
\<close>

fun context_enabled :: "bool \<Rightarrow> bool option \<Rightarrow> bool" where
  "context_enabled dflt None = dflt"
| "context_enabled dflt (Some b) = b"

definition python_call ::
    "bool \<Rightarrow> datetime \<Rightarrow> kwargs \<Rightarrow> callable \<Rightarrow> bool option \<Rightarrow> error + string" where
  "python_call dflt now ctx f flag = call f now (if context_enabled dflt flag then ctx else [])"

text \<open>
  The entries of the run context an operator reads: everything, for a Python operator whose
  flag is on; the names its command template refers to, for a Bash operator.
\<close>

fun context_names :: "bool \<Rightarrow> kwargs \<Rightarrow> operator \<Rightarrow> string list" where
  "context_names dflt ctx (PythonOperator tid f flag) =
     (if context_enabled dflt flag then map fst ctx else [])"
| "context_names dflt ctx (BashOperator tid cmd) =
     filter (\<lambda>v. v \<in> set (map fst ctx)) (template_names cmd)"

definition receives_context :: "bool \<Rightarrow> kwargs \<Rightarrow> operator \<Rightarrow> bool" where
  "receives_context dflt ctx op = (context_names dflt ctx op \<noteq> [])"

text \<open>A run context holds at least the two entries \<^verbatim>\<open>task3\<close> requires.\<close>

definition run_context :: "string \<Rightarrow> string \<Rightarrow> kwargs \<Rightarrow> kwargs" where
  "run_context ds ts others = (''ds'', ds) # (''ts'', ts) # others"

section \<open>Properties\<close>

lemma template_names_op_end: "template_names op_end_command = [''range'', ''macros'', ''ds'']"
  by (simp add: template_names_def op_end_command_def)

lemma bind_no_params: "bind_kwargs \<lparr>params = [], var_keyword = False\<rparr> [] = Inr ([], [])"
  by (simp add: bind_kwargs_def)

lemma bind_task3:
  "bind_kwargs (signature_of Task3) (run_context ds ts others) =
     Inr ([ds, ts], filter (\<lambda>(k, v). k \<noteq> ''ds'' \<and> k \<noteq> ''ts'') others)"
  by (simp add: bind_kwargs_def run_context_def)

lemma call_task3: "call Task3 now (run_context ds ts others) = Inr (''test_'' @ ts @ ''.png'')"
  by (simp add: call_def bind_task3 task3_def del: signature_of.simps)

lemma call_task1: "call Task1 now [] = Inr (task1 now)"
  by (simp add: call_def bind_no_params)

lemma call_task2: "call Task2 now [] = Inr task2"
  by (simp add: call_def bind_no_params)

text \<open>
  Had the absent flag meant "on", the first task could not run at all: \<^verbatim>\<open>task1\<close> declares
  no parameter, so any keyword argument is a \<^verbatim>\<open>TypeError\<close>.
\<close>

lemma task1_rejects_context:
  "python_call True now (run_context ds ts others) Task1 None = Inl TypeError"
  by (simp add: python_call_def call_def bind_kwargs_def run_context_def)

lemma task1_name_example:
  "task1 \<lparr>year = 2020, month = 9, day = 1, hour = 7, minute = 30, second = 5\<rparr>
     = ''weathers_2020-09-01T07-30-05.csv''"
  by (simp add: task1_def iso_date_def zero_pad_def)

lemma receives_op3: "receives_context dflt (run_context ds ts others) op3"
  by (simp add: receives_context_def op3_def run_context_def)

lemma receives_op_end: "receives_context dflt (run_context ds ts others) op_end"
  by (simp add: receives_context_def op_end_def run_context_def template_names_op_end)

lemma not_receives_op1: "\<not> receives_context False ctx op1"
  by (simp add: receives_context_def op1_def)

lemma not_receives_op2: "\<not> receives_context False ctx op2"
  by (simp add: receives_context_def op2_def)

text \<open>
  C10, as stated: in the notebook's pipeline only the third task receives the run context
  the scheduler provides. This fails at the fourth task: the command template of
  \<^verbatim>\<open>last_task\<close> refers to the context entry \<^verbatim>\<open>ds\<close>, so for the run of 2020-09-01 the tasks
  that receive context are not \<^verbatim>\<open>op3\<close> alone, whatever an absent flag means.
\<close>

theorem only_op3_receives_context_counterexample:
  "receives_context False
      (run_context ''2020-09-01'' ''2020-09-01T00:00:00+00:00'' []) op_end
   \<and> filter (receives_context False
        (run_context ''2020-09-01'' ''2020-09-01T00:00:00+00:00'' [])) operators \<noteq> [op3]
   \<and> filter (receives_context True
        (run_context ''2020-09-01'' ''2020-09-01T00:00:00+00:00'' [])) operators \<noteq> [op3]"
  by (simp add: operators_def receives_op3 receives_op_end not_receives_op1 not_receives_op2)

text \<open>
  C10, amended: among the three Python tasks only the third is handed the run context.
  \<^verbatim>\<open>op3\<close> is the third operator and is built with \<^verbatim>\<open>provide_context = True\<close>; its callable
  \<^verbatim>\<open>task3\<close> declares \<^verbatim>\<open>(ds, ts, **kwargs)\<close> and, called with a run context, writes
  \<^verbatim>\<open>test_<ts>.png\<close>. \<^verbatim>\<open>op1\<close> and \<^verbatim>\<open>op2\<close> are built without the flag, their callables declare no
  parameter, and with the flag off by default they are called with no argument. The fourth
  task, \<^verbatim>\<open>last_task\<close>, reads the context entry \<^verbatim>\<open>ds\<close> through its command template. So the
  tasks that receive context are exactly \<^verbatim>\<open>op3\<close> and \<^verbatim>\<open>op_end\<close>: context is taken per task,
  not handed to all tasks alike.
\<close>

theorem context_is_opt_in_per_task:
  "operators ! 2 = op3
   \<and> task_id op3 = ''task3''
   \<and> provide_context op3 = Some True
   \<and> provide_context op1 = None
   \<and> provide_context op2 = None
   \<and> signature_of (python_callable op3) = \<lparr>params = [''ds'', ''ts''], var_keyword = True\<rparr>
   \<and> signature_of (python_callable op1) = \<lparr>params = [], var_keyword = False\<rparr>
   \<and> signature_of (python_callable op2) = \<lparr>params = [], var_keyword = False\<rparr>
   \<and> python_call dflt now (run_context ds ts others) (python_callable op3) (provide_context op3)
       = Inr (''test_'' @ ts @ ''.png'')
   \<and> python_call False now (run_context ds ts others) (python_callable op1) (provide_context op1)
       = call Task1 now []
   \<and> python_call False now (run_context ds ts others) (python_callable op2) (provide_context op2)
       = call Task2 now []
   \<and> call Task1 now [] = Inr (task1 now)
   \<and> call Task2 now [] = Inr task2
   \<and> filter (receives_context False (run_context ds ts others)) [op1, op2, op3] = [op3]
   \<and> filter (receives_context False (run_context ds ts others)) operators = [op3, op_end]
   \<and> ''ds'' \<in> set (context_names False (run_context ds ts others) op_end)"
proof -
  have sel: "operators ! 2 = op3" "task_id op3 = ''task3''"
    "provide_context op3 = Some True" "provide_context op1 = None" "provide_context op2 = None"
    "python_callable op3 = Task3" "python_callable op1 = Task1" "python_callable op2 = Task2"
    by (simp_all add: operators_def op1_def op2_def op3_def)
  have c3: "python_call dflt now (run_context ds ts others) Task3 (Some True)
              = Inr (''test_'' @ ts @ ''.png'')"
    by (simp add: python_call_def call_task3)
  have c1: "python_call False now (run_context ds ts others) Task1 None = call Task1 now []"
    and c2: "python_call False now (run_context ds ts others) Task2 None = call Task2 now []"
    by (simp_all add: python_call_def)
  have f3: "filter (receives_context False (run_context ds ts others)) [op1, op2, op3] = [op3]"
    by (simp add: receives_op3 not_receives_op1 not_receives_op2)
  have f4: "filter (receives_context False (run_context ds ts others)) operators = [op3, op_end]"
    by (simp add: operators_def receives_op3 receives_op_end not_receives_op1 not_receives_op2)
  have ds: "''ds'' \<in> set (context_names False (run_context ds ts others) op_end)"
    by (simp add: op_end_def run_context_def template_names_op_end)
  show ?thesis
    using sel c3 c1 c2 f3 f4 ds by (simp add: call_task1 call_task2)
qed

end
